theory Spec2Isabelle
  imports Complex_Main "HOL-Library.State_Monad"
begin

section \<open>The vector, ray, box and intersection types of the FastBVH headers\<close>

text \<open>
  The example program \<^verbatim>\<open>examples/CubeOfSpheres.cpp\<close> is written against the
  header-only library (\<^verbatim>\<open>FastBVH/BVH.h\<close>, \<^verbatim>\<open>FastBVH/Traverser.h\<close>), whose
  files are not among the sources. The types and vector operations the example uses
  are therefore modelled from the data model of the specification.

  The capabilities are templates over \<^verbatim>\<open>Float\<close>. They are embedded twice. This first
  part reads \<^verbatim>\<open>Float\<close> as the real numbers and the capabilities as functions of the
  values of their arguments: it states what the formulas compute. The second part
  (from the section on binary32 arithmetic on) reads \<^verbatim>\<open>Float\<close> as \<^verbatim>\<open>float\<close>, as
  \<^verbatim>\<open>main\<close> instantiates it, with every operation rounded, and the capabilities as
  operations on objects in memory that they receive by reference.
\<close>

text \<open>
  Modelled from the spec: \<^verbatim>\<open>Vector3<Float>\<close>, "3-component real-valued vector with
  arithmetic, dot, cross, normalize". The header that declares it is missing.
\<close>

record Vector3 =
  x :: real
  y :: real
  z :: real

definition vec_add :: "Vector3 \<Rightarrow> Vector3 \<Rightarrow> Vector3" where
  "vec_add a b = \<lparr>x = x a + x b, y = y a + y b, z = z a + z b\<rparr>"

definition vec_sub :: "Vector3 \<Rightarrow> Vector3 \<Rightarrow> Vector3" where
  "vec_sub a b = \<lparr>x = x a - x b, y = y a - y b, z = z a - z b\<rparr>"

definition vec_mul :: "Vector3 \<Rightarrow> real \<Rightarrow> Vector3" where
  "vec_mul a k = \<lparr>x = x a * k, y = y a * k, z = z a * k\<rparr>"

definition dot :: "Vector3 \<Rightarrow> Vector3 \<Rightarrow> real" where
  "dot a b = x a * x b + y a * y b + z a * z b"

definition cross :: "Vector3 \<Rightarrow> Vector3 \<Rightarrow> Vector3" where
  "cross a b = \<lparr>x = y a * z b - z a * y b,
               y = z a * x b - x a * z b,
               z = x a * y b - y a * x b\<rparr>"

definition length_v :: "Vector3 \<Rightarrow> real" where
  "length_v a = sqrt (dot a a)"

text \<open>
  Modelled from the spec: \<^verbatim>\<open>normalize\<close> scales a vector by the inverse of its length.
  For the zero vector the program divides by zero (the components are not numbers
  afterwards, see \<open>normalize32\<close> below); HOL's \<open>1 / 0 = 0\<close> gives the zero vector there
  instead, so no theorem below uses \<open>normalize_v\<close> on a vector it has not shown to be
  non-zero.
\<close>

definition normalize_v :: "Vector3 \<Rightarrow> Vector3" where
  "normalize_v a = vec_mul a (1 / length_v a)"

text \<open>
  Modelled from the spec: \<^verbatim>\<open>Ray\<close> is \<open>{origin, direction}\<close>, the fields \<^verbatim>\<open>o\<close> and
  \<^verbatim>\<open>d\<close> of the program (\<open>o\<close> is reserved in HOL, hence \<open>o'\<close>).
\<close>

record Ray =
  o' :: Vector3
  d :: Vector3

text \<open>
  Modelled from the spec: \<^verbatim>\<open>BBox\<close> is \<open>{min, max}\<close>, built from its two corners.
\<close>

record BBox =
  min_v :: Vector3
  max_v :: Vector3

text \<open>
  Modelled from the spec: \<^verbatim>\<open>Intersection\<close> is either the empty (default) state, which
  converts to false, or the populated state with the hit distance, the reference to
  the hit primitive and the surface normal. The reference is modelled by the
  primitive it refers to.
\<close>

datatype 'p Intersection =
  Empty
  | Populated (t_hit: real) (object: 'p) (normal: Vector3)

fun to_bool :: "'p Intersection \<Rightarrow> bool" where
  "to_bool Empty = False"
| "to_bool (Populated t p n) = True"

section \<open>The sphere primitive and its two capabilities\<close>

record Sphere =
  center :: Vector3
  r :: real
  r2 :: real

text \<open>The constructor \<^verbatim>\<open>Sphere(center, radius)\<close>.\<close>

definition Sphere :: "Vector3 \<Rightarrow> real \<Rightarrow> Sphere" where
  "Sphere c radius = \<lparr>center = c, r = radius, r2 = radius * radius\<rparr>"

definition SphereBoxConverter :: "Sphere \<Rightarrow> BBox" where
  "SphereBoxConverter sphere =
     (let r = r sphere;
          box_delta = \<lparr>x = r, y = r, z = r\<rparr>
      in \<lparr>min_v = vec_sub (center sphere) box_delta,
          max_v = vec_add (center sphere) box_delta\<rparr>)"

definition SphereIntersector :: "Sphere \<Rightarrow> Ray \<Rightarrow> Sphere Intersection" where
  "SphereIntersector sphere ray =
     (let center = center sphere;
          r2 = r2 sphere;
          s = vec_sub center (o' ray);
          sd = dot s (d ray);
          ss = dot s s;
          disc = sd * sd - ss + r2
      in if disc < 0 then Empty
         else
           (let t = sd - sqrt disc;
                hit_pos = vec_add (o' ray) (vec_mul (d ray) t);
                normal = normalize_v (vec_sub hit_pos (Sphere.center sphere))
            in Populated t sphere normal))"

text \<open>
  The local variables \<^verbatim>\<open>s\<close>, \<^verbatim>\<open>sd\<close>, \<^verbatim>\<open>ss\<close> and \<^verbatim>\<open>disc\<close> of
  \<^verbatim>\<open>SphereIntersector::operator()\<close>, as functions of its two arguments.
\<close>

definition local_s :: "Sphere \<Rightarrow> Ray \<Rightarrow> Vector3" where
  "local_s sphere ray = vec_sub (center sphere) (o' ray)"

definition local_sd :: "Sphere \<Rightarrow> Ray \<Rightarrow> real" where
  "local_sd sphere ray = dot (local_s sphere ray) (d ray)"

definition local_ss :: "Sphere \<Rightarrow> Ray \<Rightarrow> real" where
  "local_ss sphere ray = dot (local_s sphere ray) (local_s sphere ray)"

definition local_disc :: "Sphere \<Rightarrow> Ray \<Rightarrow> real" where
  "local_disc sphere ray =
     local_sd sphere ray * local_sd sphere ray - local_ss sphere ray + r2 sphere"

text \<open>The point \<open>origin + t * direction\<close> of a ray.\<close>

definition point_at :: "Ray \<Rightarrow> real \<Rightarrow> Vector3" where
  "point_at ray t = vec_add (o' ray) (vec_mul (d ray) t)"

text \<open>Componentwise order of two vectors, and the bounding-box invariant.\<close>

definition vec_le :: "Vector3 \<Rightarrow> Vector3 \<Rightarrow> bool" where
  "vec_le a b = (x a \<le> x b \<and> y a \<le> y b \<and> z a \<le> z b)"

text \<open>
  The hit point of distance \<open>t\<close> lies on the surface of the sphere:
  \<open>|origin + t * direction - center|\<^sup>2 = r\<^sup>2\<close>.
\<close>

definition on_surface :: "Sphere \<Rightarrow> Ray \<Rightarrow> real \<Rightarrow> bool" where
  "on_surface sphere ray t =
     ((length_v (vec_sub (point_at ray t) (center sphere)))\<^sup>2 = (r sphere)\<^sup>2)"


definition bbox_contains_point :: "BBox \<Rightarrow> Vector3 \<Rightarrow> bool" where
  "bbox_contains_point box p = (vec_le (min_v box) p \<and> vec_le p (max_v box))"

definition bbox_contains_bbox :: "BBox \<Rightarrow> BBox \<Rightarrow> bool" where
  "bbox_contains_bbox outer inner =
     (vec_le (min_v outer) (min_v inner) \<and> vec_le (max_v inner) (max_v outer))"

section \<open>Concrete scenes\<close>

text \<open>
  A unit sphere three units down the x axis, and the ray from the origin along that
  axis: it enters the sphere at distance 2 and leaves it at distance 4.
\<close>

definition sphere_A :: Sphere where
  "sphere_A = Sphere \<lparr>x = 3, y = 0, z = 0\<rparr> 1"

definition ray_A :: Ray where
  "ray_A = \<lparr>o' = \<lparr>x = 0, y = 0, z = 0\<rparr>, d = \<lparr>x = 1, y = 0, z = 0\<rparr>\<rparr>"

text \<open>
  A unit sphere two units behind the origin of the same ray, and a sphere of radius 4
  met by a ray whose direction has length \<open>3 / 5\<close>.
\<close>

definition sphere_B :: Sphere where
  "sphere_B = Sphere \<lparr>x = -2, y = 0, z = 0\<rparr> 1"

definition sphere_C :: Sphere where
  "sphere_C = Sphere \<lparr>x = 5, y = 0, z = 0\<rparr> 4"

definition ray_C :: Ray where
  "ray_C = \<lparr>o' = \<lparr>x = 0, y = 0, z = 0\<rparr>, d = \<lparr>x = 3 / 5, y = 0, z = 0\<rparr>\<rparr>"



section \<open>The camera rays of \<^verbatim>\<open>main\<close>\<close>

text \<open>
  The rendering loops of \<^verbatim>\<open>main\<close> run \<open>i\<close> over \<open>0 ..< width\<close> and \<open>j\<close> over
  \<open>0 ..< height\<close>; \<open>pixel_ray i j\<close> is the ray the loop body builds and passes to
  \<^verbatim>\<open>traverse\<close>. Within these bounds \<^verbatim>\<open>height-1-j\<close> does not wrap around.
\<close>

definition width :: nat where "width = 800"
definition height :: nat where "height = 800"

definition camera_position :: Vector3 where
  "camera_position = \<lparr>x = 1.6, y = 1.3, z = 1.6\<rparr>"

definition camera_focus :: Vector3 where
  "camera_focus = \<lparr>x = 0, y = 0, z = 0\<rparr>"

definition camera_up :: Vector3 where
  "camera_up = \<lparr>x = 0, y = 1, z = 0\<rparr>"

definition camera_dir :: Vector3 where
  "camera_dir = normalize_v (vec_sub camera_focus camera_position)"

definition camera_u :: Vector3 where
  "camera_u = normalize_v (cross camera_dir camera_up)"

definition camera_v :: Vector3 where
  "camera_v = normalize_v (cross camera_u camera_dir)"

definition pixel_ray :: "nat \<Rightarrow> nat \<Rightarrow> Ray" where
  "pixel_ray i j =
     (let u = (real i + 0.5) / real (width - 1) - 0.5;
          v = (real (height - 1 - j) + 0.5) / real (height - 1) - 0.5;
          fov = 0.5 / tan (70 * 3.14159265 * 0.5 / 180)
      in \<lparr>o' = camera_position,
          d = normalize_v (vec_add (vec_add (vec_mul camera_u u) (vec_mul camera_v v))
                (vec_mul camera_dir fov))\<rparr>)"

section \<open>The program state and the scene construction of \<^verbatim>\<open>main\<close>\<close>

text \<open>
  The mutable state of the program that matters here: the hidden state of the C
  library's \<^verbatim>\<open>rand\<close>, and the vector \<^verbatim>\<open>objects\<close> of \<^verbatim>\<open>main\<close>.
\<close>

record 's program_state =
  rand_state :: 's
  objects :: "Sphere list"

text \<open>
  \<^verbatim>\<open>rand\<close> and \<^verbatim>\<open>RAND_MAX\<close> belong to the C library, not to the program: they are
  parameters. \<open>rand\<close> maps the hidden state to the number returned and the next state.
  The braces of \<^verbatim>\<open>Vector3<float> { rand01(), rand01(), rand01() }\<close> evaluate the three
  calls from left to right.
\<close>

definition rand01 :: "('s \<Rightarrow> int \<times> 's) \<Rightarrow> int \<Rightarrow> 's program_state \<Rightarrow> real \<times> 's program_state" where
  "rand01 rand RAND_MAX st =
     (case rand (rand_state st) of
        (v, s') \<Rightarrow> (real_of_int v * (1 / real_of_int RAND_MAX), st\<lparr>rand_state := s'\<rparr>))"

definition randVector3 ::
  "('s \<Rightarrow> int \<times> 's) \<Rightarrow> int \<Rightarrow> 's program_state \<Rightarrow> Vector3 \<times> 's program_state" where
  "randVector3 rand RAND_MAX st =
     (case rand01 rand RAND_MAX st of (a, st1) \<Rightarrow>
      case rand01 rand RAND_MAX st1 of (b, st2) \<Rightarrow>
      case rand01 rand RAND_MAX st2 of (c, st3) \<Rightarrow>
        (vec_sub (vec_mul \<lparr>x = a, y = b, z = c\<rparr> 2) \<lparr>x = 1, y = 1, z = 1\<rparr>, st3))"

text \<open>
  The loop \<^verbatim>\<open>for(size_t i=0; i<N; ++i) objects.emplace_back(Sphere<float>(randVector3(), .005f))\<close>,
  from the value \<open>i\<close> of its counter on.
\<close>

function construct_spheres ::
  "('s \<Rightarrow> int \<times> 's) \<Rightarrow> int \<Rightarrow> nat \<Rightarrow> nat \<Rightarrow> 's program_state \<Rightarrow> 's program_state" where
  "construct_spheres rand RAND_MAX N i st =
     (if i < N then
        (case randVector3 rand RAND_MAX st of
           (c, st') \<Rightarrow>
             construct_spheres rand RAND_MAX N (Suc i)
               (st'\<lparr>objects := objects st' @ [Sphere c 0.005]\<rparr>))
      else st)"
  by pat_completeness auto
termination
  by (relation "measure (\<lambda>(rand, RAND_MAX, N, i, st). N - i)") auto

definition N :: nat where
  "N = 1000000"

text \<open>The state of \<^verbatim>\<open>main\<close> after the loop, from the empty vector.\<close>

definition main_construct :: "('s \<Rightarrow> int \<times> 's) \<Rightarrow> int \<Rightarrow> 's \<Rightarrow> 's program_state" where
  "main_construct rand RAND_MAX s0 =
     construct_spheres rand RAND_MAX N 0 \<lparr>rand_state = s0, objects = []\<rparr>"

text \<open>
  The cube \<open>[-h, h]\<^sup>3\<close>, and what is claimed of every sphere of the scene: radius
  \<open>0.005\<close>, center in \<open>[-1, 1]\<^sup>3\<close>, bounding box within \<open>[-1.005, 1.005]\<^sup>3\<close>.
\<close>

definition cube :: "real \<Rightarrow> BBox" where
  "cube h = \<lparr>min_v = \<lparr>x = - h, y = - h, z = - h\<rparr>, max_v = \<lparr>x = h, y = h, z = h\<rparr>\<rparr>"

definition scene_sphere :: "Sphere \<Rightarrow> bool" where
  "scene_sphere sphere =
     (r sphere = 0.005 \<and> bbox_contains_point (cube 1) (center sphere)
      \<and> bbox_contains_bbox (cube 1.005) (SphereBoxConverter sphere))"

text \<open>A sample generator with \<open>RAND_MAX = 32767\<close>.\<close>

definition rand_sample :: "nat \<Rightarrow> int \<times> nat" where
  "rand_sample s = (int (s mod 32768), s * 1103515245 + 12345)"

section \<open>Binary32 arithmetic\<close>

text \<open>
  \<^verbatim>\<open>main\<close> instantiates the templates with \<^verbatim>\<open>float\<close>. A \<^verbatim>\<open>float\<close> is an IEEE 754
  binary32 value: a real number on the binary32 grid, an infinity, or not a number.
  Every operation returns the exact result rounded to the nearest binary32 value,
  ties to the even significand (the default rounding mode), each operation on its own
  (no fused multiply-add, no wider intermediate format).

  The sign of a zero is not represented. It could only show in a division by zero,
  and the one division of the program divides by the length of a vector, a square
  root of a sum of squares, which is never the negative zero.
\<close>

datatype binary32 = Finite real | PosInf | NegInf | NaN

text \<open>\<open>pow2 k\<close> is \<open>2\<^sup>k\<close> for an integer \<open>k\<close>.\<close>

definition pow2 :: "int \<Rightarrow> real" where
  "pow2 k = (if 0 \<le> k then 2 ^ nat k else 1 / 2 ^ nat (- k))"

text \<open>Rounding to the nearest integer, ties to the even one.\<close>

definition round_even :: "real \<Rightarrow> int" where
  "round_even v =
     (let f = \<lfloor>v\<rfloor>; rest = v - of_int f
      in if rest < 1 / 2 then f
         else if 1 / 2 < rest then f + 1
         else if even f then f else f + 1)"

text \<open>
  The binary exponent of a non-zero real, not below that of the subnormal numbers; the
  largest finite binary32 value, \<open>(2\<^sup>2\<^sup>4 - 1) * 2\<^sup>1\<^sup>0\<^sup>4\<close>; and rounding to binary32: to a
  multiple of \<open>2\<^sup>e\<^sup>-\<^sup>2\<^sup>3\<close>, and to an infinity when that multiple is beyond the largest
  finite value.
\<close>

definition exponent :: "real \<Rightarrow> int" where
  "exponent v = max \<lfloor>log 2 \<bar>v\<bar>\<rfloor> (- 126)"

definition max_binary32 :: real where
  "max_binary32 = (2 ^ 24 - 1) * 2 ^ 104"

definition round32 :: "real \<Rightarrow> binary32" where
  "round32 v =
     (if v = 0 then Finite 0
      else
        (let q = pow2 (exponent v - 23);
             w = of_int (round_even (v / q)) * q
         in if max_binary32 < w then PosInf
            else if w < - max_binary32 then NegInf
            else Finite w))"

text \<open>A real is a binary32 value when rounding leaves it as it is.\<close>

definition representable :: "real \<Rightarrow> bool" where
  "representable v = (round32 v = Finite v)"

text \<open>
  The operations of \<^verbatim>\<open>float\<close> that the program uses: \<^verbatim>\<open>-x\<close>, \<^verbatim>\<open>+\<close>, \<^verbatim>\<open>-\<close>, \<^verbatim>\<open>*\<close>,
  \<^verbatim>\<open>/\<close>, \<^verbatim>\<open>std::sqrt\<close> and \<^verbatim>\<open><\<close>. A comparison with not-a-number is false.
\<close>

fun f_neg :: "binary32 \<Rightarrow> binary32" where
  "f_neg (Finite a) = Finite (- a)"
| "f_neg PosInf = NegInf"
| "f_neg NegInf = PosInf"
| "f_neg NaN = NaN"

fun f_add :: "binary32 \<Rightarrow> binary32 \<Rightarrow> binary32" where
  "f_add (Finite a) (Finite b) = round32 (a + b)"
| "f_add NaN b = NaN"
| "f_add a NaN = NaN"
| "f_add PosInf NegInf = NaN"
| "f_add NegInf PosInf = NaN"
| "f_add PosInf b = PosInf"
| "f_add a PosInf = PosInf"
| "f_add NegInf b = NegInf"
| "f_add a NegInf = NegInf"

definition f_sub :: "binary32 \<Rightarrow> binary32 \<Rightarrow> binary32" where
  "f_sub a b = f_add a (f_neg b)"

definition inf_signed :: "bool \<Rightarrow> binary32" where
  "inf_signed negative = (if negative then NegInf else PosInf)"

fun f_mul :: "binary32 \<Rightarrow> binary32 \<Rightarrow> binary32" where
  "f_mul (Finite a) (Finite b) = round32 (a * b)"
| "f_mul NaN b = NaN"
| "f_mul a NaN = NaN"
| "f_mul (Finite a) PosInf = (if a = 0 then NaN else inf_signed (a < 0))"
| "f_mul (Finite a) NegInf = (if a = 0 then NaN else inf_signed (0 < a))"
| "f_mul PosInf (Finite b) = (if b = 0 then NaN else inf_signed (b < 0))"
| "f_mul NegInf (Finite b) = (if b = 0 then NaN else inf_signed (0 < b))"
| "f_mul PosInf PosInf = PosInf"
| "f_mul NegInf NegInf = PosInf"
| "f_mul PosInf NegInf = NegInf"
| "f_mul NegInf PosInf = NegInf"

fun f_div :: "binary32 \<Rightarrow> binary32 \<Rightarrow> binary32" where
  "f_div (Finite a) (Finite b) =
     (if b = 0 then (if a = 0 then NaN else inf_signed (a < 0)) else round32 (a / b))"
| "f_div NaN b = NaN"
| "f_div a NaN = NaN"
| "f_div (Finite a) PosInf = Finite 0"
| "f_div (Finite a) NegInf = Finite 0"
| "f_div PosInf (Finite b) = inf_signed (b < 0)"
| "f_div NegInf (Finite b) = inf_signed (0 \<le> b)"
| "f_div PosInf PosInf = NaN"
| "f_div PosInf NegInf = NaN"
| "f_div NegInf PosInf = NaN"
| "f_div NegInf NegInf = NaN"

fun f_sqrt :: "binary32 \<Rightarrow> binary32" where
  "f_sqrt (Finite a) = (if a < 0 then NaN else round32 (sqrt a))"
| "f_sqrt PosInf = PosInf"
| "f_sqrt NegInf = NaN"
| "f_sqrt NaN = NaN"

fun f_less :: "binary32 \<Rightarrow> binary32 \<Rightarrow> bool" where
  "f_less (Finite a) (Finite b) = (a < b)"
| "f_less NaN b = False"
| "f_less a NaN = False"
| "f_less NegInf NegInf = False"
| "f_less NegInf b = True"
| "f_less a PosInf = (a \<noteq> PosInf)"
| "f_less a NegInf = False"
| "f_less PosInf b = False"

section \<open>The capabilities on binary32 values in memory\<close>

text \<open>
  Modelled from the spec: \<^verbatim>\<open>Vector3<float>\<close> and its operations, componentwise with
  every operation rounded; \<open>dot\<close> adds the three products from left to right,
  \<open>normalize\<close> multiplies by \<open>1 / length\<close>.
\<close>

record Vector3f =
  x32 :: binary32
  y32 :: binary32
  z32 :: binary32

definition vec_add32 :: "Vector3f \<Rightarrow> Vector3f \<Rightarrow> Vector3f" where
  "vec_add32 a b =
     \<lparr>x32 = f_add (x32 a) (x32 b), y32 = f_add (y32 a) (y32 b), z32 = f_add (z32 a) (z32 b)\<rparr>"

definition vec_sub32 :: "Vector3f \<Rightarrow> Vector3f \<Rightarrow> Vector3f" where
  "vec_sub32 a b =
     \<lparr>x32 = f_sub (x32 a) (x32 b), y32 = f_sub (y32 a) (y32 b), z32 = f_sub (z32 a) (z32 b)\<rparr>"

definition vec_mul32 :: "Vector3f \<Rightarrow> binary32 \<Rightarrow> Vector3f" where
  "vec_mul32 a k = \<lparr>x32 = f_mul (x32 a) k, y32 = f_mul (y32 a) k, z32 = f_mul (z32 a) k\<rparr>"

definition dot32 :: "Vector3f \<Rightarrow> Vector3f \<Rightarrow> binary32" where
  "dot32 a b =
     f_add (f_add (f_mul (x32 a) (x32 b)) (f_mul (y32 a) (y32 b))) (f_mul (z32 a) (z32 b))"

definition length32 :: "Vector3f \<Rightarrow> binary32" where
  "length32 a = f_sqrt (dot32 a a)"

definition normalize32 :: "Vector3f \<Rightarrow> Vector3f" where
  "normalize32 a = vec_mul32 a (f_div (Finite 1) (length32 a))"

text \<open>Modelled from the spec: \<^verbatim>\<open>Ray<float>\<close> and \<^verbatim>\<open>BBox<float>\<close>.\<close>

record Ray32 =
  o32 :: Vector3f
  d32 :: Vector3f

record BBox32 =
  min32 :: Vector3f
  max32 :: Vector3f

text \<open>
  Modelled from the spec: \<^verbatim>\<open>Intersection<float, Sphere<float>>\<close>. The populated state
  holds the address of the primitive that was hit.
\<close>

type_synonym addr = nat

datatype Intersection32 =
  Empty32
  | Populated32 (t32: binary32) (object32: addr) (normal32: Vector3f)


text \<open>\<^verbatim>\<open>Sphere<float>\<close> and its constructor: \<^verbatim>\<open>r2(radius*radius)\<close> is a rounded product.\<close>

record Sphere32 =
  center32 :: Vector3f
  r32 :: binary32
  r2_32 :: binary32

definition Sphere32 :: "Vector3f \<Rightarrow> binary32 \<Rightarrow> Sphere32" where
  "Sphere32 c radius = \<lparr>center32 = c, r32 = radius, r2_32 = f_mul radius radius\<rparr>"

text \<open>
  The memory of the program: the sphere and the ray stored at each address, and the
  rest of the program state (of any type \<open>'g\<close>). A reference is an address. A
  computation of the program is a state transformer on the memory
  (\<open>('g memory, 'a) state\<close>); \<open>read_mem\<close> is a read access, built from the monad's
  \<open>get\<close>. A write access would be built from its \<open>set\<close> or \<open>update\<close>; the two
  operators below have none.
\<close>

record 'g memory =
  sphere_at :: "addr \<Rightarrow> Sphere32"
  ray_at :: "addr \<Rightarrow> Ray32"
  rest :: 'g

definition read_mem :: "('g memory \<Rightarrow> 'a) \<Rightarrow> ('g memory, 'a) state" where
  "read_mem f = do { m \<leftarrow> State_Monad.get; State_Monad.return (f m) }"

text \<open>
  \<^verbatim>\<open>SphereBoxConverter<float>::operator()\<close>, statement by statement. The parameter is
  the address the reference \<^verbatim>\<open>sphere\<close> is bound to; \<^verbatim>\<open>const auto& r = sphere.r\<close> binds
  a reference, and every use of \<^verbatim>\<open>r\<close> and of \<^verbatim>\<open>sphere.center\<close> reads the memory.
\<close>

definition SphereBoxConverter_op :: "addr \<Rightarrow> ('g memory, BBox32) state" where
  "SphereBoxConverter_op sphere = do {
     r \<leftarrow> read_mem (\<lambda>m. r32 (sphere_at m sphere));
     let box_delta = \<lparr>x32 = r, y32 = r, z32 = r\<rparr>;
     c1 \<leftarrow> read_mem (\<lambda>m. center32 (sphere_at m sphere));
     c2 \<leftarrow> read_mem (\<lambda>m. center32 (sphere_at m sphere));
     State_Monad.return \<lparr>min32 = vec_sub32 c1 box_delta, max32 = vec_add32 c2 box_delta\<rparr>
   }"

text \<open>
  \<^verbatim>\<open>SphereIntersector<float>::operator()\<close>, statement by statement. \<^verbatim>\<open>center\<close> and
  \<^verbatim>\<open>r2\<close> are references into the sphere; every use of them, of \<^verbatim>\<open>ray.o\<close> and of
  \<^verbatim>\<open>ray.d\<close> reads the memory. The result holds \<^verbatim>\<open>&sphere\<close>, the address passed in.
\<close>

definition SphereIntersector_op :: "addr \<Rightarrow> addr \<Rightarrow> ('g memory, Intersection32) state" where
  "SphereIntersector_op sphere ray = do {
     center \<leftarrow> read_mem (\<lambda>m. center32 (sphere_at m sphere));
     ray_o \<leftarrow> read_mem (\<lambda>m. o32 (ray_at m ray));
     let s = vec_sub32 center ray_o;
     ray_d \<leftarrow> read_mem (\<lambda>m. d32 (ray_at m ray));
     let sd = dot32 s ray_d;
     let ss = dot32 s s;
     r2 \<leftarrow> read_mem (\<lambda>m. r2_32 (sphere_at m sphere));
     let disc = f_add (f_sub (f_mul sd sd) ss) r2;
     if f_less disc (Finite 0) then State_Monad.return Empty32
     else do {
       let t = f_sub sd (f_sqrt disc);
       ray_o \<leftarrow> read_mem (\<lambda>m. o32 (ray_at m ray));
       ray_d \<leftarrow> read_mem (\<lambda>m. d32 (ray_at m ray));
       let hit_pos = vec_add32 ray_o (vec_mul32 ray_d t);
       center \<leftarrow> read_mem (\<lambda>m. center32 (sphere_at m sphere));
       let normal = normalize32 (vec_sub32 hit_pos center);
       State_Monad.return (Populated32 t sphere normal)
     }
   }"

text \<open>
  The discriminant and the distance as the operator computes them, as functions of the
  sphere and the ray it reads.
\<close>

definition disc32 :: "Sphere32 \<Rightarrow> Ray32 \<Rightarrow> binary32" where
  "disc32 sphere ray =
     f_add (f_sub (f_mul (dot32 (vec_sub32 (center32 sphere) (o32 ray)) (d32 ray))
                         (dot32 (vec_sub32 (center32 sphere) (o32 ray)) (d32 ray)))
                  (dot32 (vec_sub32 (center32 sphere) (o32 ray)) (vec_sub32 (center32 sphere) (o32 ray))))
           (r2_32 sphere)"

definition t_computed :: "Sphere32 \<Rightarrow> Ray32 \<Rightarrow> binary32" where
  "t_computed sphere ray =
     f_sub (dot32 (vec_sub32 (center32 sphere) (o32 ray)) (d32 ray)) (f_sqrt (disc32 sphere ray))"

text \<open>A binary32 vector is of unit length: its components are finite and its length is 1.\<close>

definition unit_length32 :: "Vector3f \<Rightarrow> bool" where
  "unit_length32 v =
     (case (x32 v, y32 v, z32 v) of
        (Finite a, Finite b, Finite c) \<Rightarrow> length_v \<lparr>x = a, y = b, z = c\<rparr> = 1
      | _ \<Rightarrow> False)"

section \<open>Runs without rounding\<close>

text \<open>
  Real vectors, rays and boxes as binary32 ones, component by component.
\<close>

definition Vector3f_of :: "Vector3 \<Rightarrow> Vector3f" where
  "Vector3f_of v = \<lparr>x32 = Finite (x v), y32 = Finite (y v), z32 = Finite (z v)\<rparr>"

definition Ray32_of :: "Ray \<Rightarrow> Ray32" where
  "Ray32_of ray = \<lparr>o32 = Vector3f_of (o' ray), d32 = Vector3f_of (d ray)\<rparr>"









section \<open>Concrete memories\<close>

text \<open>A memory that holds one sphere and one ray, at every address.\<close>

definition memory_of :: "Sphere32 \<Rightarrow> Ray32 \<Rightarrow> unit memory" where
  "memory_of sphere ray = \<lparr>sphere_at = (\<lambda>a. sphere), ray_at = (\<lambda>a. ray), rest = ()\<rparr>"

text \<open>The first scene: the unit sphere at \<open>(3, 0, 0)\<close> and the ray along the x axis.\<close>

definition center_A :: Vector3 where
  "center_A = \<lparr>x = 3, y = 0, z = 0\<rparr>"


text \<open>
  The same center and ray with the radius \<open>2\<^sup>-\<^sup>3\<^sup>0\<close>: the first root \<open>3 - 2\<^sup>-\<^sup>3\<^sup>0\<close> is not
  a binary32 value.
\<close>

definition center_V :: Vector3 where
  "center_V = \<lparr>x = 3, y = 0, z = 0\<rparr>"

definition radius_V :: real where
  "radius_V = 1 / 2 ^ 30"


text \<open>
  A unit sphere at \<open>(2\<^sup>2\<^sup>5, 0, 0)\<close>, where neighbouring binary32 values are 2 and 4 apart,
  a point of its surface, and the box the converter computes for it.
\<close>

definition center_W :: Vector3 where
  "center_W = \<lparr>x = 33554432, y = 0, z = 0\<rparr>"




text \<open>
  Two memories that hold the first scene at address 0 and differ elsewhere: in the ray
  at the other addresses and in the rest of the program state.
\<close>

definition memory_P :: "nat memory" where
  "memory_P =
     \<lparr>sphere_at = (\<lambda>a. if a = 0 then Sphere32 (Vector3f_of center_A) (Finite 1)
                        else Sphere32 (Vector3f_of center_W) (Finite 1)),
      ray_at = (\<lambda>a. if a = 0 then Ray32_of ray_A else Ray32_of ray_C),
      rest = 7\<rparr>"

definition memory_Q :: "nat memory" where
  "memory_Q =
     \<lparr>sphere_at = (\<lambda>a. Sphere32 (Vector3f_of center_A) (Finite 1)),
      ray_at = (\<lambda>a. Ray32_of ray_A),
      rest = 0\<rparr>"

section \<open>Theorems\<close>

subsection \<open>Vector algebra\<close>

lemma dot_self_nonneg: "0 \<le> dot a a"
  by (simp add: dot_def)

lemma length_v_sq: "(length_v a)\<^sup>2 = dot a a"
  by (simp add: length_v_def dot_self_nonneg)

lemma length_v_unit_iff: "(length_v a = 1) = (dot a a = 1)"
  by (simp add: length_v_def)





lemma length_normalize_v:
  assumes "0 < dot a a"
  shows "length_v (normalize_v a) = 1"
proof -
  have "dot (normalize_v a) (normalize_v a) = dot a a * (1 / (length_v a)\<^sup>2)"
    by (simp add: normalize_v_def dot_def vec_mul_def power2_eq_square algebra_simps)
  also have "\<dots> = 1" using assms by (simp add: length_v_sq)
  finally show ?thesis by (simp add: length_v_unit_iff)
qed

lemma Sphere_sel [simp]:
  "center (Sphere c radius) = c" "r (Sphere c radius) = radius"
  "r2 (Sphere c radius) = radius * radius"
  by (simp_all add: Sphere_def)

lemma SphereIntersector_unfold:
  "SphereIntersector sphere ray =
     (if local_disc sphere ray < 0 then Empty
      else Populated (local_sd sphere ray - sqrt (local_disc sphere ray)) sphere
             (normalize_v (vec_sub (point_at ray (local_sd sphere ray - sqrt (local_disc sphere ray)))
                (center sphere))))"
  by (simp add: SphereIntersector_def local_disc_def local_sd_def local_ss_def local_s_def
      point_at_def Let_def)

text \<open>
  Claim C2: the intersector returns the empty (no-hit) result exactly when the
  discriminant \<open>sd * sd - ss + r2\<close> is negative, and a populated result exactly when it
  is not, whatever the sign of the distance it then computes.
\<close>

theorem C2_empty_iff_negative_discriminant:
  "(SphereIntersector sphere ray = Empty) = (local_disc sphere ray < 0) \<and>
   to_bool (SphereIntersector sphere ray) = (0 \<le> local_disc sphere ray)"
  by (simp add: SphereIntersector_unfold not_less)

text \<open>
  Claim C5: for a sphere of radius \<open>r \<ge> 0\<close> the box of the converter has its min corner
  \<open>center - (r, r, r)\<close> componentwise below its max corner \<open>center + (r, r, r)\<close>.
\<close>

theorem C5_box_min_le_max:
  assumes "0 \<le> radius"
  shows "min_v (SphereBoxConverter (Sphere c radius)) = vec_sub c \<lparr>x = radius, y = radius, z = radius\<rparr>
       \<and> max_v (SphereBoxConverter (Sphere c radius)) = vec_add c \<lparr>x = radius, y = radius, z = radius\<rparr>
       \<and> vec_le (min_v (SphereBoxConverter (Sphere c radius)))
                (max_v (SphereBoxConverter (Sphere c radius)))"
  using assms
  by (simp add: SphereBoxConverter_def Sphere_def Let_def vec_le_def vec_sub_def vec_add_def)

theorem C5_box_min_le_max_witness:
  "(0::real) \<le> 0.005 \<and>
   vec_le (min_v (SphereBoxConverter (Sphere \<lparr>x = 1, y = -1, z = 0\<rparr> 0.005)))
          (max_v (SphereBoxConverter (Sphere \<lparr>x = 1, y = -1, z = 0\<rparr> 0.005)))"
proof -
  have h: "(0::real) \<le> 0.005" by simp
  from C5_box_min_le_max [OF h, of "\<lparr>x = 1, y = -1, z = 0\<rparr>"] h
  show ?thesis by blast
qed

subsection \<open>The first scene\<close>

lemma sphere_A_ray_A [simp]:
  "local_sd sphere_A ray_A = 3" "local_ss sphere_A ray_A = 9" "local_disc sphere_A ray_A = 1"
  "length_v (d ray_A) = 1"
  by (simp_all add: sphere_A_def ray_A_def local_disc_def local_sd_def local_ss_def local_s_def
      dot_def vec_sub_def length_v_def)



subsection \<open>Hits behind the origin\<close>

lemma sphere_B_ray_A [simp]:
  "local_sd sphere_B ray_A = -2" "local_ss sphere_B ray_A = 4" "local_disc sphere_B ray_A = 1"
  "r sphere_B = 1"
  by (simp_all add: sphere_B_def ray_A_def local_disc_def local_sd_def local_ss_def local_s_def
      dot_def vec_sub_def)

text \<open>
  Claim C10: the intersector does not filter on \<open>t \<ge> 0\<close>: there are a sphere and a ray
  with unit-length direction, origin strictly outside the sphere and the center
  behind the origin (\<open>sd < 0\<close>, \<open>disc \<ge> 0\<close>) for which it returns a populated result with
  a strictly negative distance.
\<close>

theorem C10_hit_behind_origin:
  "\<exists>sphere ray. length_v (d ray) = 1 \<and> (r sphere)\<^sup>2 < local_ss sphere ray
     \<and> local_sd sphere ray < 0 \<and> 0 \<le> local_disc sphere ray
     \<and> to_bool (SphereIntersector sphere ray)
     \<and> t_hit (SphereIntersector sphere ray) < 0"
proof -
  have "length_v (d ray_A) = 1 \<and> (r sphere_B)\<^sup>2 < local_ss sphere_B ray_A
     \<and> local_sd sphere_B ray_A < 0 \<and> 0 \<le> local_disc sphere_B ray_A
     \<and> to_bool (SphereIntersector sphere_B ray_A)
     \<and> t_hit (SphereIntersector sphere_B ray_A) < 0"
    by (simp add: SphereIntersector_unfold)
  then show ?thesis by blast
qed

subsection \<open>Directions that are not of unit length\<close>

lemma sphere_C_ray_C [simp]:
  "local_sd sphere_C ray_C = 3" "local_ss sphere_C ray_C = 25" "local_disc sphere_C ray_C = 0"
  "r sphere_C = 4" "length_v (d ray_C) = 3 / 5"
  by (simp_all add: sphere_C_def ray_C_def local_disc_def local_sd_def local_ss_def local_s_def
      dot_def vec_sub_def length_v_def real_sqrt_divide)

lemma non_unit_off_surface:
  "length_v (d ray_C) \<noteq> 1 \<and> to_bool (SphereIntersector sphere_C ray_C)
   \<and> t_hit (SphereIntersector sphere_C ray_C) = 3
   \<and> \<not> on_surface sphere_C ray_C (t_hit (SphereIntersector sphere_C ray_C))"
  apply (simp add: SphereIntersector_unfold)
  apply (simp add: on_surface_def length_v_sq)
  apply (simp add: sphere_C_def ray_C_def point_at_def dot_def vec_sub_def vec_add_def vec_mul_def)
  done

lemma dot_cross_left [simp]: "dot (cross a b) a = 0" "dot (cross a b) b = 0"
  by (simp_all add: dot_def cross_def algebra_simps)

lemma dot_vec_mul_left: "dot (vec_mul a k) b = k * dot a b"
  by (simp add: dot_def vec_mul_def algebra_simps)

lemma dot_vec_add_left: "dot (vec_add a b) c = dot a c + dot b c"
  by (simp add: dot_def vec_add_def algebra_simps)

lemma dot_normalize_left: "dot (normalize_v a) b = dot a b / length_v a"
  by (simp add: normalize_v_def dot_vec_mul_left)

lemma dot_self_zero:
  assumes "dot a a = 0"
  shows "dot a b = 0"
proof -
  have "(x a)\<^sup>2 + (y a)\<^sup>2 + (z a)\<^sup>2 = 0"
    using assms by (simp add: dot_def power2_eq_square)
  then have "x a = 0 \<and> y a = 0 \<and> z a = 0"
    by (simp add: sum_power2_eq_zero_iff add_nonneg_eq_0_iff)
  then show ?thesis by (simp add: dot_def)
qed

lemma camera_dir_unit: "dot camera_dir camera_dir = 1"
proof -
  have "0 < dot (vec_sub camera_focus camera_position) (vec_sub camera_focus camera_position)"
    by (simp add: camera_focus_def camera_position_def vec_sub_def dot_def)
  then have "length_v camera_dir = 1"
    unfolding camera_dir_def by (rule length_normalize_v)
  then show ?thesis by (simp add: length_v_unit_iff)
qed

lemma camera_u_dir: "dot camera_u camera_dir = 0"
  by (simp add: camera_u_def dot_normalize_left)

lemma camera_v_dir: "dot camera_v camera_dir = 0"
  by (simp add: camera_v_def dot_normalize_left)

lemma fov_pos: "0 < 0.5 / tan (70 * 3.14159265 * 0.5 / 180 :: real)"
proof -
  have "(70 * 3.14159265 * 0.5 / 180 :: real) < pi / 2"
    using pi_ge_two by simp
  then have "0 < tan (70 * 3.14159265 * 0.5 / 180 :: real)"
    by (intro tan_gt_zero) simp_all
  then show ?thesis by simp
qed

lemma pixel_ray_unit: "length_v (d (pixel_ray i j)) = 1"
proof -
  define u where "u = (real i + 0.5) / real (width - 1) - 0.5"
  define v where "v = (real (height - 1 - j) + 0.5) / real (height - 1) - 0.5"
  define fov :: real where "fov = 0.5 / tan (70 * 3.14159265 * 0.5 / 180)"
  define w where "w = vec_add (vec_add (vec_mul camera_u u) (vec_mul camera_v v))
                (vec_mul camera_dir fov)"
  have dw: "d (pixel_ray i j) = normalize_v w"
    by (simp add: pixel_ray_def Let_def w_def u_def v_def fov_def)
  have "dot w camera_dir = fov"
    by (simp add: w_def dot_vec_add_left dot_vec_mul_left camera_u_dir camera_v_dir
        camera_dir_unit)
  moreover have "0 < fov" unfolding fov_def by (rule fov_pos)
  ultimately have "dot w camera_dir \<noteq> 0" by simp
  then have "dot w w \<noteq> 0" using dot_self_zero by blast
  with dot_self_nonneg [of w] have "0 < dot w w" by simp
  then show ?thesis unfolding dw by (rule length_normalize_v)
qed

text \<open>
  Claim C9: the distance is right only for unit-length directions: there are a sphere
  and a ray whose direction is not of unit length for which the result is populated
  and the point \<open>origin + t * direction\<close> is not on the surface of the sphere; and every
  ray that \<^verbatim>\<open>main\<close> passes to \<^verbatim>\<open>traverse\<close> has a direction of unit length.
\<close>

theorem C9_unit_direction_needed:
  "(\<exists>sphere ray. length_v (d ray) \<noteq> 1 \<and> to_bool (SphereIntersector sphere ray)
      \<and> \<not> on_surface sphere ray (t_hit (SphereIntersector sphere ray)))
   \<and> (\<forall>i j. i < width \<longrightarrow> j < height \<longrightarrow> length_v (d (pixel_ray i j)) = 1)"
proof -
  have "\<exists>sphere ray. length_v (d ray) \<noteq> 1 \<and> to_bool (SphereIntersector sphere ray)
      \<and> \<not> on_surface sphere ray (t_hit (SphereIntersector sphere ray))"
    using non_unit_off_surface by blast
  then show ?thesis by (simp add: pixel_ray_unit)
qed

theorem C9_unit_direction_needed_witness:
  "0 < width \<and> 0 < height \<and> length_v (d (pixel_ray 0 0)) = 1"
proof -
  have w: "0 < width" by (simp add: width_def)
  have h: "0 < height" by (simp add: height_def)
  from C9_unit_direction_needed w h show ?thesis by blast
qed

subsection \<open>The box of a sphere\<close>






subsection \<open>The scene of one million spheres\<close>

declare construct_spheres.simps [simp del]

lemma rand01_range:
  assumes "\<forall>s. 0 \<le> fst (rand s) \<and> fst (rand s) \<le> RAND_MAX" "0 < RAND_MAX"
  shows "0 \<le> fst (rand01 rand RAND_MAX st) \<and> fst (rand01 rand RAND_MAX st) \<le> 1"
proof -
  obtain v s' where e: "rand (rand_state st) = (v, s')" by (cases "rand (rand_state st)")
  with assms(1) have "0 \<le> v \<and> v \<le> RAND_MAX" by (metis fst_conv)
  with assms(2) show ?thesis
    by (simp add: rand01_def e divide_le_eq_1)
qed

lemma rand01_objects: "objects (snd (rand01 rand RAND_MAX st)) = objects st"
  by (simp add: rand01_def split: prod.split)

lemma randVector3_range:
  assumes "\<forall>s. 0 \<le> fst (rand s) \<and> fst (rand s) \<le> RAND_MAX" "0 < RAND_MAX"
  shows "bbox_contains_point (cube 1) (fst (randVector3 rand RAND_MAX st))"
proof -
  obtain a st1 where e1: "rand01 rand RAND_MAX st = (a, st1)"
    by (cases "rand01 rand RAND_MAX st")
  obtain b st2 where e2: "rand01 rand RAND_MAX st1 = (b, st2)"
    by (cases "rand01 rand RAND_MAX st1")
  obtain c st3 where e3: "rand01 rand RAND_MAX st2 = (c, st3)"
    by (cases "rand01 rand RAND_MAX st2")
  have "0 \<le> a \<and> a \<le> 1" using rand01_range [OF assms, of st] by (simp add: e1)
  moreover have "0 \<le> b \<and> b \<le> 1" using rand01_range [OF assms, of st1] by (simp add: e2)
  moreover have "0 \<le> c \<and> c \<le> 1" using rand01_range [OF assms, of st2] by (simp add: e3)
  ultimately show ?thesis
    by (simp add: randVector3_def e1 e2 e3 bbox_contains_point_def cube_def vec_le_def
        vec_sub_def vec_mul_def)
qed

lemma randVector3_objects: "objects (snd (randVector3 rand RAND_MAX st)) = objects st"
proof -
  obtain a st1 where e1: "rand01 rand RAND_MAX st = (a, st1)"
    by (cases "rand01 rand RAND_MAX st")
  obtain b st2 where e2: "rand01 rand RAND_MAX st1 = (b, st2)"
    by (cases "rand01 rand RAND_MAX st1")
  obtain c st3 where e3: "rand01 rand RAND_MAX st2 = (c, st3)"
    by (cases "rand01 rand RAND_MAX st2")
  have "objects st3 = objects st2" using rand01_objects [of rand RAND_MAX st2] by (simp add: e3)
  also have "\<dots> = objects st1" using rand01_objects [of rand RAND_MAX st1] by (simp add: e2)
  also have "\<dots> = objects st" using rand01_objects [of rand RAND_MAX st] by (simp add: e1)
  finally show ?thesis by (simp add: randVector3_def e1 e2 e3)
qed

lemma scene_sphere_new:
  assumes "bbox_contains_point (cube 1) c"
  shows "scene_sphere (Sphere c 0.005)"
  using assms
  by (simp add: scene_sphere_def bbox_contains_point_def bbox_contains_bbox_def cube_def
      SphereBoxConverter_def Let_def vec_le_def vec_sub_def vec_add_def)

lemma construct_spheres_inv:
  assumes "\<forall>s. 0 \<le> fst (rand s) \<and> fst (rand s) \<le> RAND_MAX" "0 < RAND_MAX"
    and "list_all scene_sphere (objects st)"
  shows "list_all scene_sphere (objects (construct_spheres rand RAND_MAX n i st))
       \<and> length (objects (construct_spheres rand RAND_MAX n i st)) = length (objects st) + (n - i)"
  using assms
proof (induction rand RAND_MAX n i st rule: construct_spheres.induct)
  case (1 rand RAND_MAX n i st)
  show ?case
  proof (cases "i < n")
    case False
    then show ?thesis using "1.prems"(3) by (simp add: construct_spheres.simps)
  next
    case True
    obtain c st' where e: "randVector3 rand RAND_MAX st = (c, st')"
      by (cases "randVector3 rand RAND_MAX st")
    have c: "bbox_contains_point (cube 1) c"
      using randVector3_range [OF "1.prems"(1,2), of st] by (simp add: e)
    have o: "objects st' = objects st"
      using randVector3_objects [of rand RAND_MAX st] by (simp add: e)
    let ?st = "st'\<lparr>objects := objects st' @ [Sphere c 0.005]\<rparr>"
    have all: "list_all scene_sphere (objects ?st)"
      using "1.prems"(3) scene_sphere_new [OF c] by (simp add: o)
    have step: "construct_spheres rand RAND_MAX n i st
        = construct_spheres rand RAND_MAX n (Suc i) ?st"
      using True by (subst construct_spheres.simps) (simp add: e)
    from "1.IH" [OF True e [symmetric] "1.prems"(1,2) all] True
    show ?thesis unfolding step by (simp add: o)
  qed
qed

text \<open>
  Claim C8: if \<^verbatim>\<open>rand\<close> returns values in \<open>[0, RAND_MAX]\<close> (with \<open>RAND_MAX\<close> positive, as
  the C standard requires), the construction loop of \<^verbatim>\<open>main\<close> builds exactly 1,000,000
  spheres, each of radius \<open>0.005\<close> with every component of its center in \<open>[-1, 1]\<close>, so
  that the bounding box of each lies within the cube \<open>[-1.005, 1.005]\<^sup>3\<close>.
\<close>

theorem C8_scene_construction:
  assumes "\<forall>s. 0 \<le> fst (rand s) \<and> fst (rand s) \<le> RAND_MAX" and "0 < RAND_MAX"
  shows "length (objects (main_construct rand RAND_MAX s0)) = 1000000
       \<and> list_all scene_sphere (objects (main_construct rand RAND_MAX s0))"
  using construct_spheres_inv [OF assms, of "\<lparr>rand_state = s0, objects = []\<rparr>" N 0]
  by (simp add: main_construct_def N_def)

theorem C8_scene_construction_witness:
  "(\<forall>s. 0 \<le> fst (rand_sample s) \<and> fst (rand_sample s) \<le> 32767) \<and> (0::int) < 32767
   \<and> length (objects (main_construct rand_sample 32767 1)) = 1000000
   \<and> list_all scene_sphere (objects (main_construct rand_sample 32767 1))"
proof -
  have "s mod 32768 \<le> 32767" for s :: nat
    using mod_less_divisor [of 32768 s] by linarith
  then have h1: "\<forall>s. 0 \<le> fst (rand_sample s) \<and> fst (rand_sample s) \<le> 32767"
    by (simp add: rand_sample_def)
  have h2: "(0::int) < 32767" by simp
  from C8_scene_construction [OF h1 h2, of 1] h1 h2 show ?thesis by blast
qed

subsection \<open>Rounding to binary32\<close>

lemma pow2_powr: "pow2 k = 2 powr (of_int k)"
proof (cases "0 \<le> k")
  case True
  then show ?thesis
    by (simp add: pow2_def powr_realpow [symmetric])
next
  case False
  then have "2 powr (of_int k) = 1 / 2 powr (of_int (- k) :: real)"
    by (simp add: powr_minus_divide)
  also have "\<dots> = 1 / 2 ^ nat (- k)"
    using False by (simp add: powr_realpow [symmetric])
  finally show ?thesis using False by (simp add: pow2_def)
qed

lemma pow2_pos: "0 < pow2 k"
  by (simp add: pow2_powr)

lemma exponent_normal:
  assumes "pow2 e \<le> \<bar>v\<bar>" "\<bar>v\<bar> < pow2 (e + 1)" "- 126 \<le> e"
  shows "exponent v = e"
proof -
  have "0 < \<bar>v\<bar>" using assms(1) pow2_pos [of e] by linarith
  then have "\<lfloor>log 2 \<bar>v\<bar>\<rfloor> = e"
    using assms(1,2) by (simp add: floor_log_eq_powr_iff pow2_powr)
  with assms(3) show ?thesis by (simp add: exponent_def)
qed

lemma round_even_nearest:
  assumes "\<bar>v - of_int n\<bar> < 1 / 2"
  shows "round_even v = n"
proof (cases "of_int n \<le> v")
  case True
  with assms have "\<lfloor>v\<rfloor> = n" by (intro floor_unique) linarith+
  with assms True show ?thesis by (simp add: round_even_def Let_def)
next
  case False
  with assms have f: "\<lfloor>v\<rfloor> = n - 1" by (intro floor_unique) (simp, linarith+)
  with assms False show ?thesis by (simp add: round_even_def Let_def)
qed


lemma round32_normal:
  assumes "pow2 e \<le> \<bar>v\<bar>" "\<bar>v\<bar> < pow2 (e + 1)" "- 126 \<le> e"
    and "round_even (v / pow2 (e - 23)) = n"
    and "\<bar>of_int n * pow2 (e - 23)\<bar> \<le> max_binary32"
  shows "round32 v = Finite (of_int n * pow2 (e - 23))"
proof -
  have "v \<noteq> 0" using assms(1) pow2_pos [of e] by auto
  moreover have "exponent v = e" by (rule exponent_normal [OF assms(1-3)])
  ultimately show ?thesis
    using assms(4,5) by (simp add: round32_def Let_def abs_le_iff not_less)
qed


text \<open>The binary32 values of the concrete scenes, and the three roundings that matter.\<close>

lemma representable_0 [simp]: "representable 0"
  by (simp add: representable_def round32_def)

lemma representable_1 [simp]: "representable 1"
  unfolding representable_def using round32_normal [of 0 1 8388608]
  by (simp add: pow2_def max_binary32_def round_even_nearest)

lemma representable_2 [simp]: "representable 2"
  unfolding representable_def using round32_normal [of 1 2 8388608]
  by (simp add: pow2_def max_binary32_def round_even_nearest)

lemma representable_3 [simp]: "representable 3"
  unfolding representable_def using round32_normal [of 1 3 12582912]
  by (simp add: pow2_def max_binary32_def round_even_nearest)

lemma representable_4 [simp]: "representable 4"
  unfolding representable_def using round32_normal [of 2 4 8388608]
  by (simp add: pow2_def max_binary32_def round_even_nearest)

lemma representable_9 [simp]: "representable 9"
  unfolding representable_def using round32_normal [of 3 9 9437184]
  by (simp add: pow2_def max_binary32_def round_even_nearest)

lemma representable_m1 [simp]: "representable (- 1)"
  unfolding representable_def using round32_normal [of 0 "- 1" "- 8388608"]
  by (simp add: pow2_def max_binary32_def round_even_nearest)

lemma representable_W [simp]: "representable 33554432"
  unfolding representable_def using round32_normal [of 25 33554432 8388608]
  by (simp add: pow2_def max_binary32_def round_even_nearest)

lemma radius_V_pos: "0 < radius_V"
  by (simp add: radius_V_def)

lemma representable_radius_V [simp]: "representable radius_V"
  unfolding representable_def radius_V_def
  using round32_normal [of "- 30" "1 / 2 ^ 30" 8388608]
  by (simp add: pow2_def max_binary32_def round_even_nearest)

lemma representable_r2_V [simp]: "representable (radius_V * radius_V)"
  unfolding representable_def radius_V_def
  using round32_normal [of "- 60" "1 / 2 ^ 30 * (1 / 2 ^ 30)" 8388608]
  by (simp add: pow2_def max_binary32_def round_even_nearest)




subsection \<open>What the two operators return\<close>

lemma run_read_mem [simp]: "run_state (read_mem f) m = (f m, m)"
  by (simp add: read_mem_def)

lemma SphereBoxConverter_op_run:
  "run_state (SphereBoxConverter_op sp) m =
     (\<lparr>min32 = vec_sub32 (center32 (sphere_at m sp))
                 \<lparr>x32 = r32 (sphere_at m sp), y32 = r32 (sphere_at m sp), z32 = r32 (sphere_at m sp)\<rparr>,
       max32 = vec_add32 (center32 (sphere_at m sp))
                 \<lparr>x32 = r32 (sphere_at m sp), y32 = r32 (sphere_at m sp), z32 = r32 (sphere_at m sp)\<rparr>\<rparr>, m)"
  by (simp add: SphereBoxConverter_op_def Let_def)

lemma SphereIntersector_op_run:
  "run_state (SphereIntersector_op sp rp) m =
     (if f_less (disc32 (sphere_at m sp) (ray_at m rp)) (Finite 0) then Empty32
      else Populated32 (t_computed (sphere_at m sp) (ray_at m rp)) sp
             (normalize32 (vec_sub32
                (vec_add32 (o32 (ray_at m rp))
                   (vec_mul32 (d32 (ray_at m rp)) (t_computed (sphere_at m sp) (ray_at m rp))))
                (center32 (sphere_at m sp)))), m)"
  by (simp add: SphereIntersector_op_def Let_def disc32_def t_computed_def)

subsection \<open>Exact runs agree with the real-valued functions\<close>

lemma Vector3f_of_sel [simp]:
  "x32 (Vector3f_of v) = Finite (x v)" "y32 (Vector3f_of v) = Finite (y v)"
  "z32 (Vector3f_of v) = Finite (z v)"
  by (simp_all add: Vector3f_of_def)






lemma Ray32_of_sel [simp]:
  "o32 (Ray32_of ray) = Vector3f_of (o' ray)" "d32 (Ray32_of ray) = Vector3f_of (d ray)"
  by (simp_all add: Ray32_of_def)




lemma unit_length32_of [simp]: "unit_length32 (Vector3f_of v) = (length_v v = 1)"
  by (simp add: unit_length32_def Vector3f_of_def length_v_def dot_def)



subsection \<open>The concrete scenes\<close>

lemma memory_of_sel [simp]:
  "sphere_at (memory_of sphere ray) a = sphere" "ray_at (memory_of sphere ray) a = ray"
  by (simp_all add: memory_of_def)

lemma sphere_A_center_A: "sphere_A = Sphere center_A 1"
  by (simp add: sphere_A_def center_A_def)

lemma locals_A [simp]:
  "local_sd (Sphere center_A 1) ray_A = 3"
  "local_ss (Sphere center_A 1) ray_A = 9"
  "local_disc (Sphere center_A 1) ray_A = 1"
  using sphere_A_ray_A(1-3) by (simp_all add: sphere_A_center_A)





lemma sqrt_r2_V: "sqrt (radius_V * radius_V) = radius_V"
  using radius_V_pos by simp

lemma locals_V [simp]:
  "local_sd (Sphere center_V radius_V) ray_A = 3"
  "local_ss (Sphere center_V radius_V) ray_A = 9"
  "local_disc (Sphere center_V radius_V) ray_A = radius_V * radius_V"
  by (simp_all add: center_V_def ray_A_def local_disc_def local_sd_def local_ss_def
      local_s_def dot_def vec_sub_def)









subsection \<open>The first hit of a unit-direction ray\<close>




subsection \<open>Hits from outside the sphere\<close>




subsection \<open>The box computed for a sphere\<close>




subsection \<open>Calls of the capabilities\<close>

text \<open>
  Claim C6: both capabilities are deterministic functions of their arguments alone:
  two calls with the same reference to a sphere holding the same value (and, for the
  intersector, the same reference to a ray holding the same value) return the same
  result, whatever else the memory and the rest of the program state hold at either
  call.
\<close>

theorem C6_results_depend_on_arguments_only:
  assumes "sphere_at m sp = sphere_at m' sp" and "ray_at m rp = ray_at m' rp"
  shows "fst (run_state (SphereBoxConverter_op sp) m) = fst (run_state (SphereBoxConverter_op sp) m')
       \<and> fst (run_state (SphereIntersector_op sp rp) m) = fst (run_state (SphereIntersector_op sp rp) m')"
  using assms by (simp add: SphereBoxConverter_op_run SphereIntersector_op_run)

theorem C6_results_depend_on_arguments_only_witness:
  "sphere_at memory_P 0 = sphere_at memory_Q 0
   \<and> ray_at memory_P 0 = ray_at memory_Q 0
   \<and> rest memory_P \<noteq> rest memory_Q
   \<and> ray_at memory_P 1 \<noteq> ray_at memory_Q 1
   \<and> fst (run_state (SphereBoxConverter_op 0) memory_P)
        = fst (run_state (SphereBoxConverter_op 0) memory_Q)
   \<and> fst (run_state (SphereIntersector_op 0 0) memory_P)
        = fst (run_state (SphereIntersector_op 0 0) memory_Q)"
proof -
  have h1: "sphere_at memory_P 0 = sphere_at memory_Q 0"
    by (simp add: memory_P_def memory_Q_def)
  have h2: "ray_at memory_P 0 = ray_at memory_Q 0"
    by (simp add: memory_P_def memory_Q_def)
  have d1: "rest memory_P \<noteq> rest memory_Q"
    by (simp add: memory_P_def memory_Q_def)
  have "d32 (ray_at memory_P 1) \<noteq> d32 (ray_at memory_Q 1)"
    by (simp add: memory_P_def memory_Q_def ray_A_def ray_C_def Vector3f_of_def)
  then have d2: "ray_at memory_P 1 \<noteq> ray_at memory_Q 1" by auto
  from C6_results_depend_on_arguments_only [OF h1 h2] h1 h2 d1 d2 show ?thesis by blast
qed

text \<open>
  Claim C7: the intersector does not change the sphere or the ray passed to it: the
  memory after the call is the memory before it, and in particular the sphere and the
  ray referred to have all their fields as before the call.
\<close>

theorem C7_intersector_leaves_memory:
  "snd (run_state (SphereIntersector_op sp rp) m) = m
   \<and> sphere_at (snd (run_state (SphereIntersector_op sp rp) m)) sp = sphere_at m sp
   \<and> ray_at (snd (run_state (SphereIntersector_op sp rp) m)) rp = ray_at m rp"
  by (simp add: SphereIntersector_op_run)

end
